theory Spec2Isabelle
  imports Main "HOL-Library.Word"
begin

section \<open>Go values shared by all packages\<close>

text \<open>
  A Go \<open>int\<close> and a \<open>time.Duration\<close> (an \<open>int64\<close> count of nanoseconds) are 64-bit
  machine integers: \<open>+\<close> and \<open>*\<close> wrap around, \<open>sint\<close> reads the signed value.
  A \<open>*big.Int\<close> is an unbounded integer behind a pointer: \<open>int option\<close>, with \<open>None\<close>
  for the nil pointer, wherever the source tests or dereferences the pointer itself.
\<close>

type_synonym go_int = "64 word"
type_synonym Duration = "64 word"

text \<open>A run-time panic of the Go program, kept apart from the \<open>error\<close> values it returns.\<close>

datatype panic =
    NilDereference
  | IndexOutOfRange
  | PanicError string

datatype error =
    ErrNilArgument
  | ErrRangeProofAlice
  | ErrProofBob
  | ErrProofBobWC
  | ErrByteParts
  | ErrPlaintextOutOfRange
  | ErrCiphertextOutOfRange
  | ErrNotOnCurve

section \<open>Package tss: params.go\<close>

text \<open>
  Modelled from the spec: the party identity (section 3: a moniker, a unique key that is an
  arbitrary-length integer, and an index) and the peer context (an ordered list of party
  identities) are declared in files of the package that are not part of the sources at hand;
  \<open>IDs\<close> is the peer context's accessor for its list.
\<close>

record PartyID =
  Moniker :: string
  Key :: int
  Index :: go_int

record PeerContext =
  partyIDs :: "PartyID list"

definition IDs :: "PeerContext \<Rightarrow> PartyID list" where
  "IDs p2pCtx = partyIDs p2pCtx"

record Parameters =
  partyID :: PartyID
  parties :: PeerContext
  partyCount :: go_int
  threshold :: go_int
  safePrimeGenTimeout :: Duration
  unsafeKGIgnoreH1H2Dupes :: bool

text \<open>\<open>ReSharingParameters\<close> embeds \<open>*Parameters\<close>: a record extension.\<close>

record ReSharingParameters = Parameters +
  newParties :: PeerContext
  newPartyCount :: go_int
  newThreshold :: go_int

text \<open>The constants of package \<open>time\<close> that the source multiplies out.\<close>

definition Nanosecond :: Duration where "Nanosecond = 1"
definition Microsecond :: Duration where "Microsecond = 1000 * Nanosecond"
definition Millisecond :: Duration where "Millisecond = 1000 * Microsecond"
definition Second :: Duration where "Second = 1000 * Millisecond"
definition Minute :: Duration where "Minute = 60 * Second"

definition defaultSafePrimeGenTimeout :: Duration where
  "defaultSafePrimeGenTimeout = 5 * Minute"

text \<open>
  The variadic argument \<open>optionalSafePrimeGenTimeout ...time.Duration\<close> is the list of the
  values passed. More than one of them panics; the zero value of \<open>bool\<close> fills the field the
  struct literal leaves out.
\<close>

definition NewParameters ::
  "PeerContext \<Rightarrow> PartyID \<Rightarrow> go_int \<Rightarrow> go_int \<Rightarrow> Duration list \<Rightarrow> panic + Parameters" where
  "NewParameters ctx pid pCount thr optionalSafePrimeGenTimeout =
     (if 0 < length optionalSafePrimeGenTimeout then
        if 1 < length optionalSafePrimeGenTimeout then
          Inl (PanicError
            ''GeneratePreParams: expected 0 or 1 item in `optionalSafePrimeGenTimeout`'')
        else
          Inr \<lparr>partyID = pid, parties = ctx, partyCount = pCount, threshold = thr,
               safePrimeGenTimeout = hd optionalSafePrimeGenTimeout,
               unsafeKGIgnoreH1H2Dupes = False\<rparr>
      else
        Inr \<lparr>partyID = pid, parties = ctx, partyCount = pCount, threshold = thr,
             safePrimeGenTimeout = defaultSafePrimeGenTimeout,
             unsafeKGIgnoreH1H2Dupes = False\<rparr>)"

definition Parties :: "'a Parameters_scheme \<Rightarrow> PeerContext" where
  "Parties params = parties params"

definition PartyCount :: "'a Parameters_scheme \<Rightarrow> go_int" where
  "PartyCount params = partyCount params"

definition Threshold :: "'a Parameters_scheme \<Rightarrow> go_int" where
  "Threshold params = threshold params"

definition SafePrimeGenTimeout :: "'a Parameters_scheme \<Rightarrow> Duration" where
  "SafePrimeGenTimeout params = safePrimeGenTimeout params"

definition NewReSharingParameters ::
  "PeerContext \<Rightarrow> PeerContext \<Rightarrow> PartyID \<Rightarrow> go_int \<Rightarrow> go_int \<Rightarrow> go_int \<Rightarrow> go_int
   \<Rightarrow> panic + ReSharingParameters" where
  "NewReSharingParameters ctx newCtx pid pCount thr newPCount newThr =
     (case NewParameters ctx pid pCount thr [] of
        Inl p \<Rightarrow> Inl p
      | Inr params \<Rightarrow>
          Inr (Parameters.extend params
                 (ReSharingParameters.fields newCtx newPCount newThr)))"

definition OldParties :: "ReSharingParameters \<Rightarrow> PeerContext" where
  "OldParties rgParams = Parties rgParams"

definition OldPartyCount :: "ReSharingParameters \<Rightarrow> go_int" where
  "OldPartyCount rgParams = partyCount rgParams"

definition NewParties :: "ReSharingParameters \<Rightarrow> PeerContext" where
  "NewParties rgParams = newParties rgParams"

definition NewPartyCount :: "ReSharingParameters \<Rightarrow> go_int" where
  "NewPartyCount rgParams = newPartyCount rgParams"

definition NewThreshold :: "ReSharingParameters \<Rightarrow> go_int" where
  "NewThreshold rgParams = newThreshold rgParams"

text \<open>\<open>append(old, new...)\<close> returns the elements of \<open>old\<close> followed by those of \<open>new\<close>.\<close>

definition OldAndNewParties :: "ReSharingParameters \<Rightarrow> PartyID list" where
  "OldAndNewParties rgParams = IDs (OldParties rgParams) @ IDs (NewParties rgParams)"

definition OldAndNewPartyCount :: "ReSharingParameters \<Rightarrow> go_int" where
  "OldAndNewPartyCount rgParams = OldPartyCount rgParams + NewPartyCount rgParams"

section \<open>What the mta package calls from the rest of the repository\<close>

subsection \<open>math/big\<close>

text \<open>
  \<open>(*big.Int).Bytes\<close> is the big-endian encoding of the absolute value without leading zero
  bytes (the empty slice for 0); \<open>SetBytes\<close> reads a big-endian unsigned integer.
\<close>

type_synonym byte = "8 word"

fun nat_be :: "nat \<Rightarrow> byte list" where
  "nat_be n = (if n = 0 then [] else nat_be (n div 256) @ [of_nat (n mod 256)])"

declare nat_be.simps [simp del]

definition Int_Bytes :: "int \<Rightarrow> byte list" where
  "Int_Bytes x = nat_be (nat \<bar>x\<bar>)"

definition SetBytes :: "byte list \<Rightarrow> int" where
  "SetBytes bz = int (foldl (\<lambda>a b. a * 256 + unat b) 0 bz)"

text \<open>
  Reading through a nil pointer panics. \<open>deref\<close> is that read, \<open>bindP\<close> continues with the
  value read, or keeps the panic.
\<close>

definition deref :: "'a option \<Rightarrow> panic + 'a" where
  "deref p = (case p of None \<Rightarrow> Inl NilDereference | Some v \<Rightarrow> Inr v)"

definition bindP :: "panic + 'a \<Rightarrow> ('a \<Rightarrow> panic + 'b) \<Rightarrow> panic + 'b" where
  "bindP m f = (case m of Inl p \<Rightarrow> Inl p | Inr v \<Rightarrow> f v)"

subsection \<open>Package common\<close>

text \<open>
  Modelled from the spec: the big-integer helpers of package \<open>common\<close> (section 2: uniform
  sampling in intervals, modular exponentiation, rejection sampling, hash-to-integer) are not
  part of the sources at hand. \<open>ModInt m\<close> is arithmetic modulo \<open>m\<close>; exponents are
  non-negative and moduli positive in every use the properties below address.
  \<open>IsInInterval b bound\<close> is membership of \<open>b\<close> in \<open>[0, bound)\<close>. \<open>RejectionSample q eHash\<close>
  reduces the hash to a challenge modulo \<open>q\<close> (section 4.4). The samplers consume one output
  \<open>s\<close> of the PRNG: \<open>GetRandomPositiveInt\<close> yields an element of \<open>[0, bound)\<close>, and every
  element of it for some \<open>s\<close>; \<open>GetRandomPositiveRelativelyPrimeInt\<close> yields a unit modulo
  \<open>n\<close>. A \<open>prng\<close> gives the outputs a call consumes, in the order of the draws.
  \<open>NonEmptyMultiBytes bzs n\<close> holds for exactly \<open>n\<close> parts, none of them empty.
\<close>

definition ModInt_Exp :: "int \<Rightarrow> int \<Rightarrow> int \<Rightarrow> int" where
  "ModInt_Exp m x y = x ^ nat y mod m"

definition ModInt_Mul :: "int \<Rightarrow> int \<Rightarrow> int \<Rightarrow> int" where
  "ModInt_Mul m x y = x * y mod m"

definition ModInt_Sub :: "int \<Rightarrow> int \<Rightarrow> int \<Rightarrow> int" where
  "ModInt_Sub m x y = (x - y) mod m"

definition IsInInterval :: "int \<Rightarrow> int \<Rightarrow> bool" where
  "IsInInterval b bound = (b < bound \<and> 0 \<le> b)"

definition RejectionSample :: "int \<Rightarrow> int \<Rightarrow> int" where
  "RejectionSample q eHash = eHash mod q"

type_synonym prng = "nat \<Rightarrow> int"

definition GetRandomPositiveInt :: "int \<Rightarrow> int \<Rightarrow> int" where
  "GetRandomPositiveInt bound s = s mod bound"

definition GetRandomPositiveRelativelyPrimeInt :: "int \<Rightarrow> int \<Rightarrow> int" where
  "GetRandomPositiveRelativelyPrimeInt n s =
     (let try = s mod n in if 0 < try \<and> gcd try n = 1 then try else 1)"

definition NonEmptyMultiBytes :: "byte list list \<Rightarrow> nat \<Rightarrow> bool" where
  "NonEmptyMultiBytes bzs expectLen =
     (length bzs \<noteq> 0 \<and> expectLen = length bzs \<and> list_all (\<lambda>bz. bz \<noteq> []) bzs)"

subsection \<open>Package crypto/paillier\<close>

text \<open>
  Modelled from the spec: the Paillier cryptosystem (sections 3 and 4.1) is not part of the
  sources at hand. The public key stores \<open>N\<close>, with \<open>\<Gamma> = N + 1\<close>; the private key adds
  \<open>\<lambda>\<close> and \<open>\<mu>\<close>. \<open>Encrypt\<close> draws \<open>r\<close> from the units modulo \<open>N\<close> and returns
  \<open>c = (1 + N)^m \<cdot> r^N mod N\<^sup>2\<close> with \<open>r\<close>, failing for \<open>m\<close> outside \<open>[0, N)\<close>;
  \<open>HomoAdd(a, b) = a \<cdot> b mod N\<^sup>2\<close> and \<open>HomoMult(k, c) = c^k mod N\<^sup>2\<close>, for which the spec
  names no failure. Decryption is a parameter (see \<open>env\<close> below).
\<close>

record PublicKey =
  N :: int

record PrivateKey = PublicKey +
  LambdaN :: int
  Mu :: int

definition NSquare :: "'a PublicKey_scheme \<Rightarrow> int" where
  "NSquare pk = N pk * N pk"

definition Gamma :: "'a PublicKey_scheme \<Rightarrow> int" where
  "Gamma pk = N pk + 1"

definition AsInts :: "PublicKey \<Rightarrow> int list" where
  "AsInts pk = [N pk, Gamma pk]"

definition Encrypt_with :: "PublicKey \<Rightarrow> int \<Rightarrow> int \<Rightarrow> int" where
  "Encrypt_with pk m r =
     ModInt_Mul (NSquare pk) (ModInt_Exp (NSquare pk) (Gamma pk) m)
       (ModInt_Exp (NSquare pk) r (N pk))"

definition EncryptAndReturnRandomness :: "PublicKey \<Rightarrow> int \<Rightarrow> int \<Rightarrow> error + (int \<times> int)" where
  "EncryptAndReturnRandomness pk m s =
     (if m < 0 \<or> N pk \<le> m then Inl ErrPlaintextOutOfRange
      else let r = GetRandomPositiveRelativelyPrimeInt (N pk) s
           in Inr (Encrypt_with pk m r, r))"

definition HomoAdd :: "PublicKey \<Rightarrow> int \<Rightarrow> int \<Rightarrow> error + int" where
  "HomoAdd pk c1 c2 = Inr (ModInt_Mul (NSquare pk) c1 c2)"

definition HomoMult :: "PublicKey \<Rightarrow> int \<Rightarrow> int \<Rightarrow> error + int" where
  "HomoMult pk m c1 = Inr (ModInt_Exp (NSquare pk) c1 m)"

subsection \<open>Package crypto (curve points) and the remaining parameters\<close>

text \<open>
  Modelled from the spec: a curve point (section 9: a capability set of scalar-base-mult,
  point-add, scalar-mult, equality, encode/decode and the curve order \<open>q\<close>) is a pair of
  coordinates, read by the accessors \<open>X()\<close> and \<open>Y()\<close> (here \<open>ecX\<close>, \<open>ecY\<close>); two points are
  equal when their coordinates are. \<open>NewECPoint\<close> fails for coordinates that are not on
  the curve, \<open>NewECPointNoCurveCheck\<close> does not look.

  The operations whose result the spec does not fix are parameters, collected in \<open>env\<close>:
  the curve order \<open>tss.EC().Params().N\<close>, the hash \<open>SHA512_256i\<close>, the curve operations, Paillier
  decryption, and Alice's range proof (type \<open>'rp\<close>) with its prover and verifier.
\<close>

datatype ECPoint = ECPoint (ecX: int) (ecY: int)

record 'rp env =
  ecN :: int
  SHA512_256i :: "int list \<Rightarrow> int"
  IsOnCurve :: "int \<Rightarrow> int \<Rightarrow> bool"
  ScalarBaseMult :: "int \<Rightarrow> ECPoint"
  ScalarMult :: "ECPoint \<Rightarrow> int \<Rightarrow> ECPoint"
  ECAdd :: "ECPoint \<Rightarrow> ECPoint \<Rightarrow> error + ECPoint"
  Decrypt :: "PrivateKey \<Rightarrow> int \<Rightarrow> error + int"
  DecryptAndRecoverRandomness :: "PrivateKey \<Rightarrow> int \<Rightarrow> error + (int \<times> int)"
  ProveRangeAlice ::
    "PublicKey \<Rightarrow> int \<Rightarrow> int \<Rightarrow> int \<Rightarrow> int \<Rightarrow> int \<Rightarrow> int \<Rightarrow> error + 'rp"
  RangeProofAlice_Verify :: "'rp \<Rightarrow> PublicKey \<Rightarrow> int \<Rightarrow> int \<Rightarrow> int \<Rightarrow> int \<Rightarrow> bool"

definition NewECPoint :: "'rp env \<Rightarrow> int \<Rightarrow> int \<Rightarrow> error + ECPoint" where
  "NewECPoint env x y = (if \<not> IsOnCurve env x y then Inl ErrNotOnCurve else Inr (ECPoint x y))"

definition NewECPointNoCurveCheck :: "int \<Rightarrow> int \<Rightarrow> ECPoint" where
  "NewECPointNoCurveCheck x y = ECPoint x y"

section \<open>Package mta: Bob's proofs\<close>

definition ProofBobBytesParts :: nat where "ProofBobBytesParts = 10"
definition ProofBobWCBytesParts :: nat where "ProofBobWCBytesParts = 12"

text \<open>
  The fields of \<open>ProofBob\<close> are \<open>*big.Int\<close>; \<open>ProofBobWC\<close> embeds a \<open>*ProofBob\<close> and holds
  the pointer \<open>U\<close> to a curve point. Each may be nil.
\<close>

record ProofBob =
  Z :: "int option"
  ZPrm :: "int option"
  T :: "int option"
  V :: "int option"
  W :: "int option"
  S :: "int option"
  S1 :: "int option"
  S2 :: "int option"
  T1 :: "int option"
  T2 :: "int option"

record ProofBobWC =
  ProofBob :: "ProofBob option"
  U :: "ECPoint option"

text \<open>
  \<open>ProveBobWC\<close> after its nil check, on the values behind the pointers. The seven draws
  take the PRNG outputs 0 to 6 in the order of the source.
\<close>

definition ProveBobWC_steps ::
  "'rp env \<Rightarrow> prng \<Rightarrow> PublicKey \<Rightarrow> int \<Rightarrow> int \<Rightarrow> int \<Rightarrow> int \<Rightarrow> int \<Rightarrow> int \<Rightarrow> int \<Rightarrow> int
   \<Rightarrow> ECPoint option \<Rightarrow> ProofBobWC" where
  "ProveBobWC_steps env rnd pk NTilde h1 h2 c1 c2 x y r Xp =
     (let NSq = NSquare pk;
          q = ecN env;
          q2 = q * q;
          q3 = q2 * q;
          q6 = q3 * q3;
          q7 = q6 * q;
          qNTilde = q * NTilde;
          q3NTilde = q3 * NTilde;
          alpha = GetRandomPositiveInt q3 (rnd 0);
          rho = GetRandomPositiveInt qNTilde (rnd 1);
          sigma = GetRandomPositiveInt qNTilde (rnd 2);
          tau = GetRandomPositiveInt q3NTilde (rnd 3);
          rhoPrm = GetRandomPositiveInt q3NTilde (rnd 4);
          beta = GetRandomPositiveRelativelyPrimeInt (N pk) (rnd 5);
          gamma = GetRandomPositiveInt q7 (rnd 6);
          u = (case Xp of None \<Rightarrow> NewECPointNoCurveCheck 0 0
               | Some _ \<Rightarrow> ScalarBaseMult env alpha);
          z = ModInt_Exp NTilde h1 x;
          z = ModInt_Mul NTilde z (ModInt_Exp NTilde h2 rho);
          zPrm = ModInt_Exp NTilde h1 alpha;
          zPrm = ModInt_Mul NTilde zPrm (ModInt_Exp NTilde h2 rhoPrm);
          t = ModInt_Exp NTilde h1 y;
          t = ModInt_Mul NTilde t (ModInt_Exp NTilde h2 sigma);
          v = ModInt_Exp NSq c1 alpha;
          v = ModInt_Mul NSq v (ModInt_Exp NSq (Gamma pk) gamma);
          v = ModInt_Mul NSq v (ModInt_Exp NSq beta (N pk));
          w = ModInt_Exp NTilde h1 gamma;
          w = ModInt_Mul NTilde w (ModInt_Exp NTilde h2 tau);
          eHash = (case Xp of
                     None \<Rightarrow> SHA512_256i env (AsInts pk @ [c1, c2, z, zPrm, t, v, w])
                   | Some X' \<Rightarrow>
                       SHA512_256i env
                         (AsInts pk @ [ecX X', ecY X', c1, c2, ecX u, ecY u, z, zPrm, t, v, w]));
          e = RejectionSample q eHash;
          s = ModInt_Exp (N pk) r e;
          s = ModInt_Mul (N pk) s beta;
          s1 = e * x;
          s1 = s1 + alpha;
          s2 = e * rho;
          s2 = s2 + rhoPrm;
          t1 = e * y;
          t1 = t1 + gamma;
          t2 = e * sigma;
          t2 = t2 + tau;
          pf = \<lparr>Z = Some z, ZPrm = Some zPrm, T = Some t, V = Some v, W = Some w, S = Some s,
                S1 = Some s1, S2 = Some s2, T1 = Some t1, T2 = Some t2\<rparr>
      in \<lparr>ProofBob = Some pf, U = Some u\<rparr>)"

definition ProveBobWC ::
  "'rp env \<Rightarrow> prng \<Rightarrow> PublicKey option \<Rightarrow> int option \<Rightarrow> int option \<Rightarrow> int option \<Rightarrow> int option
   \<Rightarrow> int option \<Rightarrow> int option \<Rightarrow> int option \<Rightarrow> int option \<Rightarrow> ECPoint option
   \<Rightarrow> error + ProofBobWC" where
  "ProveBobWC env rnd pk NTilde h1 h2 c1 c2 x y r Xp =
     (if pk = None \<or> NTilde = None \<or> h1 = None \<or> h2 = None \<or> c1 = None \<or> c2 = None
         \<or> x = None \<or> y = None \<or> r = None
      then Inl ErrNilArgument
      else Inr (ProveBobWC_steps env rnd (the pk) (the NTilde) (the h1) (the h2) (the c1)
                  (the c2) (the x) (the y) (the r) Xp))"

text \<open>\<open>ProveBob\<close> returns the pointer \<open>pf.ProofBob\<close> of the proof built with a nil \<open>X\<close>.\<close>

definition ProveBob ::
  "'rp env \<Rightarrow> prng \<Rightarrow> PublicKey option \<Rightarrow> int option \<Rightarrow> int option \<Rightarrow> int option \<Rightarrow> int option
   \<Rightarrow> int option \<Rightarrow> int option \<Rightarrow> int option \<Rightarrow> int option \<Rightarrow> error + ProofBob option" where
  "ProveBob env rnd pk NTilde h1 h2 c1 c2 x y r =
     (case ProveBobWC env rnd pk NTilde h1 h2 c1 c2 x y r None of
        Inl err \<Rightarrow> Inl err
      | Inr pf \<Rightarrow> Inr (ProofBob pf))"

definition ProofBobFromBytes :: "byte list list \<Rightarrow> error + ProofBob" where
  "ProofBobFromBytes bzs =
     (if \<not> NonEmptyMultiBytes bzs ProofBobBytesParts
         \<and> \<not> NonEmptyMultiBytes bzs ProofBobWCBytesParts
      then Inl ErrByteParts
      else Inr \<lparr>Z = Some (SetBytes (bzs ! 0)),
                ZPrm = Some (SetBytes (bzs ! 1)),
                T = Some (SetBytes (bzs ! 2)),
                V = Some (SetBytes (bzs ! 3)),
                W = Some (SetBytes (bzs ! 4)),
                S = Some (SetBytes (bzs ! 5)),
                S1 = Some (SetBytes (bzs ! 6)),
                S2 = Some (SetBytes (bzs ! 7)),
                T1 = Some (SetBytes (bzs ! 8)),
                T2 = Some (SetBytes (bzs ! 9))\<rparr>)"

text \<open>
  \<open>ProofBobWCFromBytes\<close> indexes \<open>bzs[10]\<close> and \<open>bzs[11]\<close> after \<open>ProofBobFromBytes\<close> has
  accepted the slice, which it also does for ten parts: the index is then out of range.
\<close>

definition ProofBobWCFromBytes :: "'rp env \<Rightarrow> byte list list \<Rightarrow> panic + (error + ProofBobWC)" where
  "ProofBobWCFromBytes env bzs =
     (case ProofBobFromBytes bzs of
        Inl err \<Rightarrow> Inr (Inl err)
      | Inr proofBob \<Rightarrow>
          if length bzs \<le> 11 then Inl IndexOutOfRange
          else (case NewECPoint env (SetBytes (bzs ! 10)) (SetBytes (bzs ! 11)) of
                  Inl err \<Rightarrow> Inr (Inl err)
                | Inr point \<Rightarrow> Inr (Inr \<lparr>ProofBob = Some proofBob, U = Some point\<rparr>)))"

text \<open>
  \<open>(*big.Int).Mod\<close> is the Euclidean modulus: its result is in \<open>[0, |m|)\<close>. (A zero modulus
  panics in Go; the curve order is not zero.)
\<close>

definition Int_Mod :: "int \<Rightarrow> int \<Rightarrow> int" where
  "Int_Mod x m = x mod \<bar>m\<bar>"

text \<open>
  \<open>ProofBobWC.Verify\<close> after its nil check of the arguments. The receiver, the embedded
  \<open>*ProofBob\<close>, the ten fields and \<open>U\<close> are read where the source reads them: a nil one
  panics there, unless an earlier check has already returned \<open>false\<close>.
\<close>

definition ProofBobWC_Verify_steps ::
  "'rp env \<Rightarrow> ProofBobWC option \<Rightarrow> PublicKey \<Rightarrow> int \<Rightarrow> int \<Rightarrow> int \<Rightarrow> int \<Rightarrow> int
   \<Rightarrow> ECPoint option \<Rightarrow> panic + bool" where
  "ProofBobWC_Verify_steps env pf pk NTilde h1 h2 c1 c2 Xp =
     (let q = ecN env;
          q2 = q * q;
          q3 = q * q2;
          q6 = q3 * q3;
          q7 = q6 * q
      in
      bindP (deref pf) (\<lambda>pfwc.
      bindP (deref (ProofBob pfwc)) (\<lambda>pb.
      bindP (deref (Z pb)) (\<lambda>z.
      if \<not> IsInInterval z NTilde then Inr False else
      bindP (deref (ZPrm pb)) (\<lambda>zPrm.
      if \<not> IsInInterval zPrm NTilde then Inr False else
      bindP (deref (T pb)) (\<lambda>t.
      if \<not> IsInInterval t NTilde then Inr False else
      bindP (deref (V pb)) (\<lambda>v.
      if \<not> IsInInterval v (NSquare pk) then Inr False else
      bindP (deref (W pb)) (\<lambda>w.
      if \<not> IsInInterval w NTilde then Inr False else
      bindP (deref (S pb)) (\<lambda>s.
      if \<not> IsInInterval s (N pk) then Inr False else
      if gcd z NTilde \<noteq> 1 then Inr False else
      if gcd zPrm NTilde \<noteq> 1 then Inr False else
      if gcd t NTilde \<noteq> 1 then Inr False else
      if gcd v (NSquare pk) \<noteq> 1 then Inr False else
      if gcd w NTilde \<noteq> 1 then Inr False else
      if s = 0 then Inr False else
      if gcd s (N pk) \<noteq> 1 then Inr False else
      if v = 0 then Inr False else
      if gcd v (N pk) \<noteq> 1 then Inr False else
      bindP (deref (S1 pb)) (\<lambda>s1.
      if s1 > q3 then Inr False else
      bindP (deref (T1 pb)) (\<lambda>t1.
      if t1 > q7 then Inr False else
      bindP (case Xp of
               None \<Rightarrow> Inr (SHA512_256i env (AsInts pk @ [c1, c2, z, zPrm, t, v, w]))
             | Some X' \<Rightarrow>
                 bindP (deref (U pfwc)) (\<lambda>u.
                   Inr (SHA512_256i env
                     (AsInts pk @ [ecX X', ecY X', c1, c2, ecX u, ecY u, z, zPrm, t, v, w]))))
        (\<lambda>eHash.
      let e = RejectionSample q eHash in
      bindP (case Xp of
               None \<Rightarrow> Inr True
             | Some X' \<Rightarrow>
                 bindP (deref (U pfwc)) (\<lambda>u.
                   let s1ModQ = Int_Mod s1 (ecN env);
                       gS1 = ScalarBaseMult env s1ModQ
                   in (case ECAdd env (ScalarMult env X' e) u of
                         Inl err \<Rightarrow> Inr False
                       | Inr xEU \<Rightarrow> Inr (gS1 = xEU))))
        (\<lambda>check4.
      if \<not> check4 then Inr False else
      let h1ExpS1 = ModInt_Exp NTilde h1 s1 in
      bindP (deref (S2 pb)) (\<lambda>s2.
      let h2ExpS2 = ModInt_Exp NTilde h2 s2;
          left = ModInt_Mul NTilde h1ExpS1 h2ExpS2;
          zExpE = ModInt_Exp NTilde z e;
          right = ModInt_Mul NTilde zExpE zPrm
      in
      if left \<noteq> right then Inr False else
      let h1ExpT1 = ModInt_Exp NTilde h1 t1 in
      bindP (deref (T2 pb)) (\<lambda>t2.
      let h2ExpT2 = ModInt_Exp NTilde h2 t2;
          left = ModInt_Mul NTilde h1ExpT1 h2ExpT2;
          tExpE = ModInt_Exp NTilde t e;
          right = ModInt_Mul NTilde tExpE w
      in
      if left \<noteq> right then Inr False else
      let c1ExpS1 = ModInt_Exp (NSquare pk) c1 s1;
          sExpN = ModInt_Exp (NSquare pk) s (N pk);
          gammaExpT1 = ModInt_Exp (NSquare pk) (Gamma pk) t1;
          left = ModInt_Mul (NSquare pk) c1ExpS1 sExpN;
          left = ModInt_Mul (NSquare pk) left gammaExpT1;
          c2ExpE = ModInt_Exp (NSquare pk) c2 e;
          right = ModInt_Mul (NSquare pk) c2ExpE v
      in
      if left \<noteq> right then Inr False else Inr True)))))))))))))))"

definition ProofBobWC_Verify ::
  "'rp env \<Rightarrow> ProofBobWC option \<Rightarrow> PublicKey option \<Rightarrow> int option \<Rightarrow> int option \<Rightarrow> int option
   \<Rightarrow> int option \<Rightarrow> int option \<Rightarrow> ECPoint option \<Rightarrow> panic + bool" where
  "ProofBobWC_Verify env pf pk NTilde h1 h2 c1 c2 Xp =
     (if pk = None \<or> NTilde = None \<or> h1 = None \<or> h2 = None \<or> c1 = None \<or> c2 = None
      then Inr False
      else ProofBobWC_Verify_steps env pf (the pk) (the NTilde) (the h1) (the h2) (the c1)
             (the c2) Xp)"

definition ProofBob_Verify ::
  "'rp env \<Rightarrow> ProofBob option \<Rightarrow> PublicKey option \<Rightarrow> int option \<Rightarrow> int option \<Rightarrow> int option
   \<Rightarrow> int option \<Rightarrow> int option \<Rightarrow> panic + bool" where
  "ProofBob_Verify env pf pk NTilde h1 h2 c1 c2 =
     (if pf = None then Inr False
      else let pfWC = \<lparr>ProofBob = pf, U = None\<rparr>
           in ProofBobWC_Verify env (Some pfWC) pk NTilde h1 h2 c1 c2 None)"

definition ProofBob_ValidateBasic :: "ProofBob \<Rightarrow> bool" where
  "ProofBob_ValidateBasic pf =
     (Z pf \<noteq> None \<and> ZPrm pf \<noteq> None \<and> T pf \<noteq> None \<and> V pf \<noteq> None \<and> W pf \<noteq> None
      \<and> S pf \<noteq> None \<and> S1 pf \<noteq> None \<and> S2 pf \<noteq> None \<and> T1 pf \<noteq> None \<and> T2 pf \<noteq> None)"

definition ProofBobWC_ValidateBasic :: "ProofBobWC \<Rightarrow> panic + bool" where
  "ProofBobWC_ValidateBasic pf =
     bindP (deref (ProofBob pf)) (\<lambda>pb. Inr (ProofBob_ValidateBasic pb \<and> U pf \<noteq> None))"

definition ProofBob_Bytes :: "ProofBob \<Rightarrow> panic + byte list list" where
  "ProofBob_Bytes pf =
     bindP (deref (Z pf)) (\<lambda>z.
     bindP (deref (ZPrm pf)) (\<lambda>zPrm.
     bindP (deref (T pf)) (\<lambda>t.
     bindP (deref (V pf)) (\<lambda>v.
     bindP (deref (W pf)) (\<lambda>w.
     bindP (deref (S pf)) (\<lambda>s.
     bindP (deref (S1 pf)) (\<lambda>s1.
     bindP (deref (S2 pf)) (\<lambda>s2.
     bindP (deref (T1 pf)) (\<lambda>t1.
     bindP (deref (T2 pf)) (\<lambda>t2.
       Inr [Int_Bytes z, Int_Bytes zPrm, Int_Bytes t, Int_Bytes v, Int_Bytes w, Int_Bytes s,
            Int_Bytes s1, Int_Bytes s2, Int_Bytes t1, Int_Bytes t2]))))))))))"

definition ProofBobWC_Bytes :: "ProofBobWC \<Rightarrow> panic + byte list list" where
  "ProofBobWC_Bytes pf =
     bindP (deref (ProofBob pf)) (\<lambda>pb.
     bindP (ProofBob_Bytes pb) (\<lambda>bobBzs.
     bindP (deref (U pf)) (\<lambda>u.
       let bobBzsSlice = bobBzs;
           bobBzsSlice = bobBzsSlice @ [Int_Bytes (ecX u)];
           bobBzsSlice = bobBzsSlice @ [Int_Bytes (ecY u)]
       in Inr (take 12 bobBzsSlice))))"

section \<open>Package mta: share_protocol.go\<close>

text \<open>
  The drivers return Go's tuple of named results, each pointer an option and \<open>err\<close> last; a
  bare \<open>return\<close> returns what the named results hold at that moment. The pointer arguments
  of the drivers are taken as present (the values behind them); Bob's proof, whose nil
  receiver \<open>ProofBob.Verify\<close> tests, stays an option. \<open>BobMid\<close> consumes the PRNG outputs 0
  (for \<open>betaPrm\<close>) and 1 (for the encryption), and the prover the seven after them.
\<close>

definition AliceInit ::
  "'rp env \<Rightarrow> PublicKey \<Rightarrow> int \<Rightarrow> int \<Rightarrow> int \<Rightarrow> int \<Rightarrow> int \<Rightarrow> int \<Rightarrow> error + 'rp" where
  "AliceInit env pkA a cA rA NTildeB h1B h2B = ProveRangeAlice env pkA cA NTildeB h1B h2B a rA"

definition BobMid ::
  "'rp env \<Rightarrow> prng \<Rightarrow> PublicKey \<Rightarrow> 'rp \<Rightarrow> int \<Rightarrow> int \<Rightarrow> int \<Rightarrow> int \<Rightarrow> int \<Rightarrow> int \<Rightarrow> int \<Rightarrow> int
   \<Rightarrow> int option \<times> int option \<times> int option \<times> ProofBob option \<times> error option" where
  "BobMid env rnd pkA pf b cA NTildeA h1A h2A NTildeB h1B h2B =
     (if \<not> RangeProofAlice_Verify env pf pkA NTildeB h1B h2B cA
      then (None, None, None, None, Some ErrRangeProofAlice)
      else
        let q = ecN env;
            q5 = q * q;
            q5 = q5 * q5;
            q5 = q5 * q;
            betaPrm = GetRandomPositiveInt q5 (rnd 0)
        in (case EncryptAndReturnRandomness pkA betaPrm (rnd 1) of
              Inl err \<Rightarrow> (None, None, Some betaPrm, None, Some err)
            | Inr (cBetaPrm, cRand) \<Rightarrow>
               (case HomoMult pkA b cA of
                  Inl err \<Rightarrow> (None, None, Some betaPrm, None, Some err)
                | Inr cB \<Rightarrow>
                   (case HomoAdd pkA cB cBetaPrm of
                      Inl err \<Rightarrow> (None, None, Some betaPrm, None, Some err)
                    | Inr cB \<Rightarrow>
                       let beta = ModInt_Sub q 0 betaPrm
                       in (case ProveBob env (\<lambda>i. rnd (i + 2)) (Some pkA) (Some NTildeA)
                                   (Some h1A) (Some h2A) (Some cA) (Some cB) (Some b)
                                   (Some betaPrm) (Some cRand) of
                             Inl err \<Rightarrow> (Some beta, Some cB, Some betaPrm, None, Some err)
                           | Inr piB \<Rightarrow> (Some beta, Some cB, Some betaPrm, piB, None))))))"

definition BobMidWC ::
  "'rp env \<Rightarrow> prng \<Rightarrow> PublicKey \<Rightarrow> 'rp \<Rightarrow> int \<Rightarrow> int \<Rightarrow> int \<Rightarrow> int \<Rightarrow> int \<Rightarrow> int \<Rightarrow> int \<Rightarrow> int
   \<Rightarrow> ECPoint option \<Rightarrow> int option \<times> int option \<times> ProofBobWC option \<times> error option" where
  "BobMidWC env rnd pkA pf b cA NTildeA h1A h2A NTildeB h1B h2B B =
     (if \<not> RangeProofAlice_Verify env pf pkA NTildeB h1B h2B cA
      then (None, None, None, Some ErrRangeProofAlice)
      else
        let q = ecN env;
            q5 = q * q;
            q5 = q5 * q5;
            q5 = q5 * q;
            betaPrm = GetRandomPositiveInt q5 (rnd 0)
        in (case EncryptAndReturnRandomness pkA betaPrm (rnd 1) of
              Inl err \<Rightarrow> (Some betaPrm, None, None, Some err)
            | Inr (cBetaPrm, cRand) \<Rightarrow>
               (case HomoMult pkA b cA of
                  Inl err \<Rightarrow> (Some betaPrm, None, None, Some err)
                | Inr cB \<Rightarrow>
                   (case HomoAdd pkA cB cBetaPrm of
                      Inl err \<Rightarrow> (Some betaPrm, None, None, Some err)
                    | Inr cB \<Rightarrow>
                       (case ProveBobWC env (\<lambda>i. rnd (i + 2)) (Some pkA) (Some NTildeA)
                                (Some h1A) (Some h2A) (Some cA) (Some cB) (Some b)
                                (Some betaPrm) (Some cRand) B of
                          Inl err \<Rightarrow> (Some betaPrm, Some cB, None, Some err)
                        | Inr piB \<Rightarrow> (Some betaPrm, Some cB, Some piB, None))))))"

definition AliceEnd ::
  "'rp env \<Rightarrow> PublicKey \<Rightarrow> ProofBob option \<Rightarrow> int \<Rightarrow> int \<Rightarrow> int \<Rightarrow> int \<Rightarrow> int \<Rightarrow> PrivateKey
   \<Rightarrow> panic + (int option \<times> error option)" where
  "AliceEnd env pkA pf h1A h2A cA cB NTildeA sk =
     bindP (ProofBob_Verify env pf (Some pkA) (Some NTildeA) (Some h1A) (Some h2A) (Some cA)
              (Some cB)) (\<lambda>ok.
       if \<not> ok then Inr (None, Some ErrProofBob)
       else (case Decrypt env sk cB of
               Inl err \<Rightarrow> Inr (None, Some err)
             | Inr alphaIJ \<Rightarrow>
                 let q = ecN env
                 in Inr (Some (Int_Mod alphaIJ q), None)))"

definition AliceEndWC ::
  "'rp env \<Rightarrow> PublicKey \<Rightarrow> ProofBobWC option \<Rightarrow> ECPoint option \<Rightarrow> int \<Rightarrow> int \<Rightarrow> int \<Rightarrow> int \<Rightarrow> int
   \<Rightarrow> PrivateKey \<Rightarrow> panic + (int option \<times> int option \<times> int option \<times> error option)" where
  "AliceEndWC env pkA pf B cA cB NTildeA h1A h2A sk =
     bindP (ProofBobWC_Verify env pf (Some pkA) (Some NTildeA) (Some h1A) (Some h2A) (Some cA)
              (Some cB) B) (\<lambda>ok.
       if \<not> ok then Inr (None, None, None, Some ErrProofBobWC)
       else (case DecryptAndRecoverRandomness env sk cB of
               Inl err \<Rightarrow> Inr (None, None, None, Some err)
             | Inr (muIJRec, muIJRand) \<Rightarrow>
                 let q = ecN env
                 in Inr (Some (Int_Mod muIJRec q), Some muIJRec, Some muIJRand, None)))"

section \<open>A small instance of the parameters\<close>

text \<open>
  The properties below are stated for every \<open>env\<close>. To run the functions on concrete inputs
  the parameters are instantiated once, with small numbers: the group of order 7 written
  as the points \<open>(k, 1)\<close> with generator \<open>(1, 1)\<close>, the sum of its inputs as hash, textbook
  Paillier decryption \<open>m = L(c^\<lambda> mod N\<^sup>2) \<cdot> \<mu> mod N\<close> with \<open>L(u) = (u - 1) div N\<close> for a key
  \<open>(N, \<lambda>, \<mu>)\<close>, the randomness recovered by search, and a range proof that is the verdict
  its verifier returns.
\<close>

definition Paillier_L :: "int \<Rightarrow> int \<Rightarrow> int" where
  "Paillier_L u n = (u - 1) div n"

definition Paillier_Decrypt :: "PrivateKey \<Rightarrow> int \<Rightarrow> error + int" where
  "Paillier_Decrypt sk c =
     (if c < 0 \<or> NSquare sk \<le> c \<or> gcd c (NSquare sk) \<noteq> 1 then Inl ErrCiphertextOutOfRange
      else Inr (ModInt_Mul (N sk)
                  (Paillier_L (ModInt_Exp (NSquare sk) c (LambdaN sk)) (N sk)) (Mu sk)))"

definition Paillier_DecryptAndRecoverRandomness :: "PrivateKey \<Rightarrow> int \<Rightarrow> error + (int \<times> int)" where
  "Paillier_DecryptAndRecoverRandomness sk c =
     (case Paillier_Decrypt sk c of
        Inl err \<Rightarrow> Inl err
      | Inr m \<Rightarrow>
         (case find (\<lambda>r. Encrypt_with \<lparr>N = N sk\<rparr> m r = c) [1..N sk - 1] of
            None \<Rightarrow> Inl ErrCiphertextOutOfRange
          | Some r \<Rightarrow> Inr (m, r)))"

definition small_env :: "bool env" where
  "small_env =
     \<lparr>ecN = 7,
      SHA512_256i = sum_list,
      IsOnCurve = (\<lambda>x y. 0 \<le> x \<and> x < 7 \<and> y = 1),
      ScalarBaseMult = (\<lambda>k. ECPoint (k mod 7) 1),
      ScalarMult = (\<lambda>p k. ECPoint (ecX p * k mod 7) 1),
      ECAdd = (\<lambda>p1 p2. Inr (ECPoint ((ecX p1 + ecX p2) mod 7) 1)),
      Decrypt = Paillier_Decrypt,
      DecryptAndRecoverRandomness = Paillier_DecryptAndRecoverRandomness,
      ProveRangeAlice = (\<lambda>pk c NTilde h1 h2 m r. Inr True),
      RangeProofAlice_Verify = (\<lambda>pf pk NTilde h1 h2 c. pf)\<rparr>"

definition small_pk :: PublicKey where
  "small_pk = \<lparr>N = 15\<rparr>"

definition small_sk :: PrivateKey where
  "small_sk = \<lparr>N = 15, LambdaN = 4, Mu = 4\<rparr>"

text \<open>
  Paillier correctness (section 8, property 1) for a key pair and the decryption of \<open>env\<close>:
  every encryption of a plaintext in \<open>[0, N)\<close> with a unit \<open>r\<close> decrypts to the plaintext.
\<close>

definition paillier_correct :: "'rp env \<Rightarrow> PublicKey \<Rightarrow> PrivateKey \<Rightarrow> bool" where
  "paillier_correct env pk sk =
     (\<forall>m \<in> {0..<N pk}. \<forall>r \<in> {1..<N pk}.
        gcd r (N pk) = 1 \<longrightarrow> Decrypt env sk (Encrypt_with pk m r) = Inr m)"

section \<open>Properties of params.go\<close>

lemma five_minutes: "defaultSafePrimeGenTimeout = 300000000000"
  by (simp add: defaultSafePrimeGenTimeout_def Minute_def Second_def Millisecond_def
      Microsecond_def Nanosecond_def)

lemma five_minutes_signed: "sint defaultSafePrimeGenTimeout = 5 * 60 * 1000000000"
  by (simp add: five_minutes)

text \<open>
  Claim C9. A call of \<open>NewParameters\<close> without the optional timeout returns parameters whose
  \<open>SafePrimeGenTimeout()\<close> is the default of five minutes (300000000000 nanoseconds, which
  the 64-bit duration holds without wrapping), and a call with exactly one optional timeout
  \<open>d\<close> returns parameters whose \<open>SafePrimeGenTimeout()\<close> is \<open>d\<close>.
\<close>

theorem NewParameters_timeout:
  "(\<exists>params. NewParameters ctx pid pCount thr [] = Inr params
       \<and> SafePrimeGenTimeout params = 5 * Minute
       \<and> sint (SafePrimeGenTimeout params) = 5 * 60 * 1000000000)
   \<and> (\<exists>params. NewParameters ctx pid pCount thr [d] = Inr params
       \<and> SafePrimeGenTimeout params = d)"
  by (simp add: NewParameters_def SafePrimeGenTimeout_def five_minutes_signed
      defaultSafePrimeGenTimeout_def [symmetric])

text \<open>
  Claim C10. For every resharing parameter set, \<open>OldAndNewParties\<close> is the list of the old
  committee's party IDs followed by the new committee's, and \<open>OldAndNewPartyCount\<close> is
  \<open>partyCount + newPartyCount\<close> (Go's \<open>int\<close> addition). Nothing is removed: a party occurs in
  the list as often as in the old list plus as often as in the new list, so a member of both
  committees occurs there twice, and both counts enter the sum.
\<close>

theorem OldAndNew_double_count:
  "OldAndNewParties rgParams = partyIDs (parties rgParams) @ partyIDs (newParties rgParams)
   \<and> OldAndNewPartyCount rgParams = partyCount rgParams + newPartyCount rgParams
   \<and> count_list (OldAndNewParties rgParams) p
       = count_list (partyIDs (parties rgParams)) p
         + count_list (partyIDs (newParties rgParams)) p
   \<and> length (OldAndNewParties rgParams)
       = length (partyIDs (parties rgParams)) + length (partyIDs (newParties rgParams))"
  by (simp add: OldAndNewParties_def OldAndNewPartyCount_def OldParties_def NewParties_def
      OldPartyCount_def NewPartyCount_def Parties_def IDs_def)

section \<open>Properties of the wire encoding\<close>


lemma foldl_be_snoc:
  "foldl (\<lambda>a b. a * 256 + unat b) 0 (xs @ [b :: byte]) = foldl (\<lambda>a b. a * 256 + unat b) 0 xs * 256 + unat b"
  by simp

lemma nat_be_roundtrip: "foldl (\<lambda>a b. a * 256 + unat b) 0 (nat_be n) = n"
proof (induction n rule: nat_be.induct)
  case (1 n)
  show ?case
  proof (cases "n = 0")
    case True
    then show ?thesis by (simp add: nat_be.simps)
  next
    case False
    have u: "unat (of_nat (n mod 256) :: byte) = n mod 256"
      by (simp add: unat_of_nat)
    have "nat_be n = nat_be (n div 256) @ [of_nat (n mod 256)]"
      using False by (subst nat_be.simps) simp
    then show ?thesis
      using 1 [OF False] u by simp
  qed
qed

lemma nat_be_nonempty: "0 < n \<Longrightarrow> nat_be n \<noteq> []"
  by (subst nat_be.simps) simp

lemma SetBytes_Int_Bytes: "0 \<le> x \<Longrightarrow> SetBytes (Int_Bytes x) = x"
  by (simp add: SetBytes_def Int_Bytes_def nat_be_roundtrip)

lemma Int_Bytes_nonempty: "x \<noteq> 0 \<Longrightarrow> Int_Bytes x \<noteq> []"
  by (simp add: Int_Bytes_def nat_be_nonempty)

lemma Int_Bytes_zero: "Int_Bytes 0 = []"
  by (simp add: Int_Bytes_def nat_be.simps)

lemma ProofBob_Bytes_present:
  "ProofBob_Bytes \<lparr>Z = Some z, ZPrm = Some zPrm, T = Some t, V = Some v, W = Some w, S = Some s,
      S1 = Some s1, S2 = Some s2, T1 = Some t1, T2 = Some t2\<rparr>
   = Inr [Int_Bytes z, Int_Bytes zPrm, Int_Bytes t, Int_Bytes v, Int_Bytes w, Int_Bytes s,
          Int_Bytes s1, Int_Bytes s2, Int_Bytes t1, Int_Bytes t2]"
  by (simp add: ProofBob_Bytes_def deref_def bindP_def)

lemma ProofBob_Bytes_length: "ProofBob_Bytes pf = Inr parts \<Longrightarrow> length parts = 10"
  by (auto simp: ProofBob_Bytes_def deref_def bindP_def split: option.splits)

lemma ProofBob_Bytes_iff: "(\<exists>parts. ProofBob_Bytes pf = Inr parts) = ProofBob_ValidateBasic pf"
  by (auto simp: ProofBob_Bytes_def ProofBob_ValidateBasic_def deref_def bindP_def split: option.splits)

lemma ProofBobWC_Bytes_present:
  "ProofBobWC_Bytes \<lparr>ProofBob = Some \<lparr>Z = Some z, ZPrm = Some zPrm, T = Some t, V = Some v, W = Some w, S = Some s,
      S1 = Some s1, S2 = Some s2, T1 = Some t1, T2 = Some t2\<rparr>, U = Some u\<rparr>
   = Inr [Int_Bytes z, Int_Bytes zPrm, Int_Bytes t, Int_Bytes v, Int_Bytes w, Int_Bytes s,
          Int_Bytes s1, Int_Bytes s2, Int_Bytes t1, Int_Bytes t2, Int_Bytes (ecX u), Int_Bytes (ecY u)]"
  by (simp add: ProofBobWC_Bytes_def ProofBob_Bytes_present deref_def bindP_def)

lemma ProofBobWC_Bytes_length: "ProofBobWC_Bytes pf = Inr parts \<Longrightarrow> length parts = 12"
  by (auto simp: ProofBobWC_Bytes_def deref_def bindP_def Let_def dest!: ProofBob_Bytes_length split: option.splits sum.splits)

lemma FromBytes_iff:
  "(\<exists>pf. ProofBobFromBytes bzs = Inr pf) = ((length bzs = 10 \<or> length bzs = 12) \<and> list_all (\<lambda>bz. bz \<noteq> []) bzs)"
  by (auto simp: ProofBobFromBytes_def NonEmptyMultiBytes_def ProofBobBytesParts_def ProofBobWCBytesParts_def)

lemma FromBytes_err:
  "(ProofBobFromBytes bzs = Inl ErrByteParts) = (\<not> ((length bzs = 10 \<or> length bzs = 12) \<and> list_all (\<lambda>bz. bz \<noteq> []) bzs))"
  by (auto simp: ProofBobFromBytes_def NonEmptyMultiBytes_def ProofBobBytesParts_def ProofBobWCBytesParts_def)


text \<open>
  Claim C7. \<open>ProofBob.Bytes\<close> of a proof whose fields are present is the list of the ten
  encodings in the order \<open>Z, ZPrm, T, V, W, S, S1, S2, T1, T2\<close>, and \<open>ProofBobWC.Bytes\<close>
  appends the encodings of \<open>U.X\<close> and \<open>U.Y\<close> at positions 10 and 11; whatever \<open>Bytes\<close>
  returns has exactly 10 (respectively 12) parts. \<open>ProofBobFromBytes\<close> succeeds exactly on
  inputs of 10 or of 12 parts that are all non-empty, and returns its error on every other
  input.
\<close>

theorem ProofBob_wire_encoding:
  "ProofBob_Bytes \<lparr>Z = Some z, ZPrm = Some zPrm, T = Some t, V = Some v, W = Some w, S = Some s,
      S1 = Some s1, S2 = Some s2, T1 = Some t1, T2 = Some t2\<rparr>
     = Inr [Int_Bytes z, Int_Bytes zPrm, Int_Bytes t, Int_Bytes v, Int_Bytes w, Int_Bytes s,
            Int_Bytes s1, Int_Bytes s2, Int_Bytes t1, Int_Bytes t2]
   \<and> ProofBobWC_Bytes \<lparr>ProofBob = Some \<lparr>Z = Some z, ZPrm = Some zPrm, T = Some t, V = Some v,
         W = Some w, S = Some s, S1 = Some s1, S2 = Some s2, T1 = Some t1, T2 = Some t2\<rparr>,
         U = Some u\<rparr>
     = Inr [Int_Bytes z, Int_Bytes zPrm, Int_Bytes t, Int_Bytes v, Int_Bytes w, Int_Bytes s,
            Int_Bytes s1, Int_Bytes s2, Int_Bytes t1, Int_Bytes t2,
            Int_Bytes (ecX u), Int_Bytes (ecY u)]
   \<and> (\<forall>parts. ProofBob_Bytes pf = Inr parts \<longrightarrow> length parts = ProofBobBytesParts)
   \<and> (\<forall>parts. ProofBobWC_Bytes pfwc = Inr parts \<longrightarrow> length parts = ProofBobWCBytesParts)
   \<and> ((\<exists>pf'. ProofBobFromBytes bzs = Inr pf')
        = ((length bzs = 10 \<or> length bzs = 12) \<and> (\<forall>bz \<in> set bzs. bz \<noteq> [])))
   \<and> ((ProofBobFromBytes bzs = Inl ErrByteParts)
        = (\<not> ((length bzs = 10 \<or> length bzs = 12) \<and> (\<forall>bz \<in> set bzs. bz \<noteq> []))))"
  using FromBytes_iff [of bzs] FromBytes_err [of bzs]
  by (simp add: ProofBob_Bytes_present ProofBobWC_Bytes_present ProofBob_Bytes_length
      ProofBobWC_Bytes_length ProofBobBytesParts_def ProofBobWCBytesParts_def list_all_iff)

theorem ProofBob_wire_encoding_witness:
  "(\<exists>pf'. ProofBobFromBytes (replicate 10 [1]) = Inr pf')
   \<and> ProofBobFromBytes (replicate 11 [1]) = Inl ErrByteParts
   \<and> ProofBobFromBytes (replicate 9 [1] @ [[]]) = Inl ErrByteParts
   \<and> (\<exists>pf'. ProofBobFromBytes (replicate 12 [1]) = Inr pf')
   \<and> length (projr (ProofBob_Bytes \<lparr>Z = Some 1, ZPrm = Some 2, T = Some 3, V = Some 4, W = Some 5,
        S = Some 6, S1 = Some 7, S2 = Some 8, T1 = Some 9, T2 = Some 10\<rparr>)) = 10"
proof -
  let ?pf = "\<lparr>Z = Some 1, ZPrm = Some 2, T = Some 3, V = Some 4, W = Some 5,
        S = Some 6, S1 = Some 7, S2 = Some 8, T1 = Some 9, T2 = Some 10\<rparr>"
  have a: "\<exists>pf'. ProofBobFromBytes (replicate 10 [1]) = Inr pf'"
    using ProofBob_wire_encoding [where bzs = "replicate 10 [1]"] by simp
  have b: "ProofBobFromBytes (replicate 11 [1]) = Inl ErrByteParts"
    using ProofBob_wire_encoding [where bzs = "replicate 11 [1]"] by simp
  have c: "ProofBobFromBytes (replicate 9 [1] @ [[]]) = Inl ErrByteParts"
    using ProofBob_wire_encoding [where bzs = "replicate 9 [1] @ [[]]"] by simp
  have d: "\<exists>pf'. ProofBobFromBytes (replicate 12 [1]) = Inr pf'"
    using ProofBob_wire_encoding [where bzs = "replicate 12 [1]"] by simp
  have e: "length (projr (ProofBob_Bytes ?pf)) = 10"
    using ProofBob_wire_encoding [where pf = ?pf and z = 1 and zPrm = 2 and t = 3 and v = 4 and w = 5
        and s = 6 and ?s1.0 = 7 and ?s2.0 = 8 and ?t1.0 = 9 and ?t2.0 = 10]
    by (simp add: ProofBobBytesParts_def)
  show ?thesis using a b c d e by blast
qed

text \<open>
  Claim C8. For a \<open>ProofBobWC\<close> whose ten integers are strictly positive and whose \<open>U\<close> is a
  point on the curve with strictly positive coordinates, \<open>Bytes\<close> returns 12 parts from which
  \<open>ProofBobWCFromBytes\<close> rebuilds the same proof: the same ten integers and the same
  coordinates of \<open>U\<close>.
\<close>

theorem ProofBobWC_bytes_roundtrip:
  assumes "0 < z" "0 < zPrm" "0 < t" "0 < v" "0 < w" "0 < s" "0 < s1" "0 < s2" "0 < t1" "0 < t2"
    and "IsOnCurve env ux uy" and "0 < ux" and "0 < uy"
    and "pf = \<lparr>ProofBob = Some \<lparr>Z = Some z, ZPrm = Some zPrm, T = Some t, V = Some v,
         W = Some w, S = Some s, S1 = Some s1, S2 = Some s2, T1 = Some t1, T2 = Some t2\<rparr>,
         U = Some (ECPoint ux uy)\<rparr>"
  shows "\<exists>parts. ProofBobWC_Bytes pf = Inr parts \<and> length parts = 12
           \<and> ProofBobWCFromBytes env parts = Inr (Inr pf)"
proof -
  let ?parts = "[Int_Bytes z, Int_Bytes zPrm, Int_Bytes t, Int_Bytes v, Int_Bytes w, Int_Bytes s,
            Int_Bytes s1, Int_Bytes s2, Int_Bytes t1, Int_Bytes t2, Int_Bytes ux, Int_Bytes uy]"
  have bytes: "ProofBobWC_Bytes pf = Inr ?parts"
    using assms(14) by (simp add: ProofBobWC_Bytes_present)
  have ne: "NonEmptyMultiBytes ?parts ProofBobWCBytesParts"
    using assms(1-10,12,13)
    by (simp add: NonEmptyMultiBytes_def ProofBobWCBytesParts_def Int_Bytes_nonempty)
  have pb: "ProofBobFromBytes ?parts = Inr \<lparr>Z = Some z, ZPrm = Some zPrm, T = Some t, V = Some v,
         W = Some w, S = Some s, S1 = Some s1, S2 = Some s2, T1 = Some t1, T2 = Some t2\<rparr>"
    using ne assms(1-10) by (simp add: ProofBobFromBytes_def SetBytes_Int_Bytes)
  have "ProofBobWCFromBytes env ?parts = Inr (Inr pf)"
    using pb assms(11-14) by (simp add: ProofBobWCFromBytes_def NewECPoint_def SetBytes_Int_Bytes)
  with bytes show ?thesis by simp
qed


theorem ProofBobWC_bytes_roundtrip_witness:
  "\<exists>parts. ProofBobWC_Bytes \<lparr>ProofBob = Some \<lparr>Z = Some 300, ZPrm = Some 2, T = Some 3, V = Some 4,
         W = Some 5, S = Some 6, S1 = Some 70000, S2 = Some 8, T1 = Some 9, T2 = Some 10\<rparr>,
         U = Some (ECPoint 3 1)\<rparr> = Inr parts \<and> length parts = 12
     \<and> ProofBobWCFromBytes small_env parts
        = Inr (Inr \<lparr>ProofBob = Some \<lparr>Z = Some 300, ZPrm = Some 2, T = Some 3, V = Some 4,
         W = Some 5, S = Some 6, S1 = Some 70000, S2 = Some 8, T1 = Some 9, T2 = Some 10\<rparr>,
         U = Some (ECPoint 3 1)\<rparr>)"
  by (rule ProofBobWC_bytes_roundtrip [where env = small_env and z = 300 and zPrm = 2 and t = 3
        and v = 4 and w = 5 and s = 6 and ?s1.0 = 70000 and ?s2.0 = 8 and ?t1.0 = 9 and ?t2.0 = 10
        and ux = 3 and uy = 1]) (simp_all add: small_env_def)

section \<open>Properties of the proof constructor\<close>



end
